theory Spec2Isabelle
  imports
    Complex_Main
    "HOL-Library.AList"
    "HOL-Library.Char_ord"
    "HOL-Library.List_Lexorder"
    "HOL-Library.Product_Lexorder"
begin

section \<open>Data model (src/types/index.ts, src/models/job.ts)\<close>

text \<open>
  Values of TypeScript type \<open>any\<close> (job payloads, results, response bodies) are kept as
  opaque serialised JSON text. Instants (\<open>Date\<close>, \<open>Date.now()\<close>) are epoch
  milliseconds. Counters that the code only ever initialises to zero and increments are
  natural numbers; numbers supplied by callers are integers. Every read of the clock and
  every call of \<open>Math.random()\<close> is an explicit argument of the function that makes it.
  Field names follow the source; where interfaces share field names the fields carry a
  prefix (\<open>jo_\<close> for \<open>JobOptions\<close>, \<open>wh_\<close> for \<open>WebhookConfig\<close>, \<open>ht_\<close> for
  \<open>HttpTaskPayload\<close>), and the job's \<open>id\<close> is \<open>job_id\<close>.
\<close>

type_synonym json = string
type_synonym timestamp = int

datatype JobStatus = WAITING | ACTIVE | COMPLETED | FAILED | DELAYED | STALLED

record JobOptions =
  jo_attempts :: "int option"
  jo_delay :: "int option"
  jo_priority :: "int option"
  jo_removeOnComplete :: "bool option"
  jo_removeOnFail :: "bool option"

record WebhookConfig =
  wh_url :: string
  wh_method :: "string option"
  wh_headers :: "(string \<times> string) list option"
  wh_timeout :: "int option"
  retryAttempts :: "int option"

record QueueOptions =
  concurrency :: "int option"
  defaultJobOptions :: "JobOptions option"
  removeOnComplete :: "bool option"
  removeOnFail :: "bool option"

text \<open>\<open>HttpTaskPayload\<close> of src/workers/http-task-worker.ts: the \<open>data\<close> of an HTTP task.\<close>

record HttpTaskPayload =
  ht_url :: string
  ht_method :: "string option"
  ht_headers :: "(string \<times> string) list option"
  ht_body :: json
  ht_timeout :: "int option"

datatype job_data = JsonData json | HttpTaskData HttpTaskPayload

record Job =
  job_id :: string
  queueName :: string
  data :: job_data
  options :: JobOptions
  status :: JobStatus
  progress :: "int option"
  result :: "json option"
  error :: "string option"
  attempts :: nat
  maxAttempts :: int
  createdAt :: timestamp
  processedAt :: "timestamp option"
  completedAt :: "timestamp option"
  failedAt :: "timestamp option"
  webhook :: "WebhookConfig option"

text \<open>JavaScript truthiness of an optional boolean: \<open>undefined\<close> is falsy.\<close>

fun truthy :: "bool option \<Rightarrow> bool" where
  "truthy None = False"
| "truthy (Some b) = b"

text \<open>
  The constructor \<open>new Job(queueName, data, options, webhook)\<close>. The fresh UUID and the
  creation instant are arguments. \<open>options?.delay && options.delay > 0\<close> and
  \<open>options?.attempts || 3\<close> treat a missing value and \<open>0\<close> alike.
\<close>

definition empty_JobOptions :: JobOptions where
  "empty_JobOptions =
     \<lparr>jo_attempts = None, jo_delay = None, jo_priority = None,
      jo_removeOnComplete = None, jo_removeOnFail = None\<rparr>"

definition new_Job ::
  "string \<Rightarrow> timestamp \<Rightarrow> string \<Rightarrow> job_data \<Rightarrow> JobOptions option \<Rightarrow> WebhookConfig option \<Rightarrow> Job"
where
  "new_Job uuid now qn d opts wh =
     \<lparr>job_id = uuid,
      queueName = qn,
      data = d,
      options = (case opts of None \<Rightarrow> empty_JobOptions | Some os \<Rightarrow> os),
      status =
        (case opts of
           None \<Rightarrow> WAITING
         | Some os \<Rightarrow>
             (case jo_delay os of
                None \<Rightarrow> WAITING
              | Some dl \<Rightarrow> if dl > 0 then DELAYED else WAITING)),
      progress = None,
      result = None,
      error = None,
      attempts = 0,
      maxAttempts =
        (case opts of
           None \<Rightarrow> 3
         | Some os \<Rightarrow>
             (case jo_attempts os of
                None \<Rightarrow> 3
              | Some a \<Rightarrow> if a = 0 then 3 else a)),
      createdAt = now,
      processedAt = None,
      completedAt = None,
      failedAt = None,
      webhook = wh\<rparr>"

definition markAsActive :: "timestamp \<Rightarrow> Job \<Rightarrow> Job" where
  "markAsActive now j = j\<lparr>status := ACTIVE, processedAt := Some now\<rparr>"

definition markAsCompleted :: "timestamp \<Rightarrow> json option \<Rightarrow> Job \<Rightarrow> Job" where
  "markAsCompleted now res j = j\<lparr>status := COMPLETED, result := res, completedAt := Some now\<rparr>"

definition markAsFailed :: "timestamp \<Rightarrow> string \<Rightarrow> Job \<Rightarrow> Job" where
  "markAsFailed now err j =
     j\<lparr>status := FAILED, error := Some err, failedAt := Some now, attempts := attempts j + 1\<rparr>"

definition canRetry :: "Job \<Rightarrow> bool" where
  "canRetry j = (int (attempts j) < maxAttempts j \<and> status j = FAILED)"

definition resetForRetry :: "Job \<Rightarrow> Job" where
  "resetForRetry j =
     (if canRetry j then j\<lparr>status := WAITING, error := None, processedAt := None\<rparr> else j)"

definition getScheduledTime :: "Job \<Rightarrow> timestamp" where
  "getScheduledTime j = createdAt j + (case jo_delay (options j) of None \<Rightarrow> 0 | Some dl \<Rightarrow> dl)"

section \<open>The store (the Redis commands the queue issues)\<close>

text \<open>
  One queue owns seven keys under \<open>queue:{name}:\<close>. Lists have their head at the left
  (\<open>LPUSH\<close> conses, \<open>BRPOP\<close> takes the last element). The sorted set is an association
  list from member to score with each member at most once; range queries sort it. The
  \<open>jobs\<close> hash holds the serialised records: \<open>JSON.stringify(job.toJSON())\<close> followed by
  \<open>Job.fromJSON(JSON.parse(...))\<close> copies every field, so the hash maps an id to a
  \<open>Job\<close>. Each command is atomic. An operation of the queue is defined below as its
  commands run without interruption; what overlapping operations do is the subject of
  the section on operations that overlap.
\<close>

record redis =
  waiting :: "string list"
  active :: "string list"
  completed :: "string list"
  failed :: "string list"
  delayed :: "(string \<times> int) list"
  jobs :: "string \<rightharpoonup> Job"
  stats :: "string \<rightharpoonup> int"

definition empty_redis :: redis where
  "empty_redis =
     \<lparr>waiting = [], active = [], completed = [], failed = [], delayed = [],
      jobs = Map.empty, stats = Map.empty\<rparr>"

definition lpush :: "string \<Rightarrow> string list \<Rightarrow> string list" where
  "lpush v xs = v # xs"

text \<open>\<open>LREM key 1 v\<close> removes the first occurrence from the head; \<open>LREM key 0 v\<close> all.\<close>

definition lrem_first :: "string \<Rightarrow> string list \<Rightarrow> string list" where
  "lrem_first v xs = remove1 v xs"

definition lrem_all :: "string \<Rightarrow> string list \<Rightarrow> nat \<times> string list" where
  "lrem_all v xs = (length (filter (\<lambda>x. x = v) xs), removeAll v xs)"

text \<open>\<open>BRPOP key 1\<close>: the tail element, or nothing once the one-second block runs out.\<close>

definition brpop :: "string list \<Rightarrow> (string \<times> string list) option" where
  "brpop xs = (if xs = [] then None else Some (last xs, butlast xs))"

definition zadd :: "string \<Rightarrow> int \<Rightarrow> (string \<times> int) list \<Rightarrow> (string \<times> int) list" where
  "zadd k s d = AList.update k s d"

definition zrem :: "string \<Rightarrow> (string \<times> int) list \<Rightarrow> nat \<times> (string \<times> int) list" where
  "zrem k d = ((if k \<in> fst ` set d then 1 else 0), AList.delete k d)"

text \<open>\<open>ZRANGEBYSCORE key lo hi\<close>: members by ascending score, ties by member.\<close>

definition zrangebyscore :: "(string \<times> int) list \<Rightarrow> int \<Rightarrow> int \<Rightarrow> string list" where
  "zrangebyscore d lo hi =
     map fst (sort_key (\<lambda>(k, s). (s, k)) (filter (\<lambda>(k, s). lo \<le> s \<and> s \<le> hi) d))"

definition zscore :: "(string \<times> int) list \<Rightarrow> string \<Rightarrow> int option" where
  "zscore d k = map_of d k"

definition hincrby :: "string \<Rightarrow> int \<Rightarrow> (string \<rightharpoonup> int) \<Rightarrow> (string \<rightharpoonup> int)" where
  "hincrby f n m = m(f \<mapsto> (case m f of None \<Rightarrow> 0 | Some v \<Rightarrow> v) + n)"

section \<open>Queue (src/models/queue.ts)\<close>

text \<open>The constructor merges the caller's options over the defaults.\<close>

definition Queue_options :: "int \<Rightarrow> QueueOptions \<Rightarrow> QueueOptions" where
  "Queue_options defaultConcurrency opts =
     \<lparr>concurrency = (case concurrency opts of None \<Rightarrow> Some defaultConcurrency | Some c \<Rightarrow> Some c),
      defaultJobOptions = defaultJobOptions opts,
      removeOnComplete = (case removeOnComplete opts of None \<Rightarrow> Some True | Some b \<Rightarrow> Some b),
      removeOnFail = (case removeOnFail opts of None \<Rightarrow> Some False | Some b \<Rightarrow> Some b)\<rparr>"

definition no_QueueOptions :: QueueOptions where
  "no_QueueOptions =
     \<lparr>concurrency = None, defaultJobOptions = None, removeOnComplete = None, removeOnFail = None\<rparr>"

definition updateStats :: "string \<Rightarrow> int \<Rightarrow> redis \<Rightarrow> redis" where
  "updateStats field n q = q\<lparr>stats := hincrby field n (stats q)\<rparr>"

definition addJob :: "Job \<Rightarrow> redis \<Rightarrow> redis" where
  "addJob job q =
     (let q1 = q\<lparr>jobs := (jobs q)(job_id job \<mapsto> job)\<rparr>;
          q2 = (if status job = DELAYED
                then q1\<lparr>delayed := zadd (job_id job) (getScheduledTime job) (delayed q1)\<rparr>
                else q1\<lparr>waiting := lpush (job_id job) (waiting q1)\<rparr>)
      in updateStats ''totalJobs'' 1 q2)"

text \<open>The loop body of \<open>processDelayedJobs\<close>, then the loop over the ready ids.\<close>

definition promote_one :: "string \<Rightarrow> redis \<Rightarrow> redis" where
  "promote_one jobId q =
     (let q1 = q\<lparr>delayed := snd (zrem jobId (delayed q))\<rparr>
      in case jobs q1 jobId of
           None \<Rightarrow> q1
         | Some job \<Rightarrow>
             q1\<lparr>jobs := (jobs q1)(jobId \<mapsto> job\<lparr>status := WAITING\<rparr>),
                waiting := lpush jobId (waiting q1)\<rparr>)"

fun promote_all :: "string list \<Rightarrow> redis \<Rightarrow> redis" where
  "promote_all [] q = q"
| "promote_all (jobId # readyJobs) q = promote_all readyJobs (promote_one jobId q)"

definition processDelayedJobs :: "timestamp \<Rightarrow> redis \<Rightarrow> redis" where
  "processDelayedJobs now q = promote_all (zrangebyscore (delayed q) 0 now) q"

text \<open>
  \<open>getNextJob\<close> reads the clock twice: \<open>now\<close> in \<open>processDelayedJobs\<close>, \<open>tp\<close> in
  \<open>markAsActive\<close>. It returns the job, or \<open>None\<close> for JavaScript's \<open>null\<close>.
\<close>

definition getNextJob :: "timestamp \<Rightarrow> timestamp \<Rightarrow> redis \<Rightarrow> Job option \<times> redis" where
  "getNextJob now tp q =
     (let q1 = processDelayedJobs now q
      in case brpop (waiting q1) of
           None \<Rightarrow> (None, q1)
         | Some (jobId, rest) \<Rightarrow>
             (let q2 = q1\<lparr>waiting := rest\<rparr>
              in case jobs q2 jobId of
                   None \<Rightarrow> (None, q2)
                 | Some stored \<Rightarrow>
                     (let job = markAsActive tp stored;
                          q3 = q2\<lparr>active := lpush (job_id job) (active q2)\<rparr>;
                          q4 = q3\<lparr>jobs := (jobs q3)(job_id job \<mapsto> job)\<rparr>
                      in (Some job, q4))))"

text \<open>
  \<open>completeJob\<close> and \<open>failJob\<close> mutate the caller's job object; the model returns it
  beside the store.
\<close>

definition completeJob ::
  "QueueOptions \<Rightarrow> timestamp \<Rightarrow> Job \<Rightarrow> json option \<Rightarrow> redis \<Rightarrow> Job \<times> redis"
where
  "completeJob opts now job0 res q =
     (let job = markAsCompleted now res job0;
          q1 = q\<lparr>active := lrem_first (job_id job) (active q)\<rparr>;
          q2 = (if \<not> truthy (removeOnComplete opts)
                then q1\<lparr>completed := lpush (job_id job) (completed q1)\<rparr> else q1);
          q3 = q2\<lparr>jobs := (jobs q2)(job_id job \<mapsto> job)\<rparr>;
          q4 = (if truthy (removeOnComplete opts)
                then q3\<lparr>jobs := (jobs q3)(job_id job := None)\<rparr> else q3)
      in (job, updateStats ''completedJobs'' 1 q4))"

text \<open>
  \<open>Queue.calculateRetryDelay\<close>. \<open>rnd\<close> is the value of \<open>Math.random()\<close>, a number in
  \<open>[0, 1)\<close>; the double-precision arithmetic is idealised to real arithmetic (the capped
  delay is an integer, exact in a double).
\<close>

definition Queue_base_delay :: "nat \<Rightarrow> real" where
  "Queue_base_delay n = min (1000 * 2 ^ n) 60000"

definition Queue_calculateRetryDelay :: "nat \<Rightarrow> real \<Rightarrow> int" where
  "Queue_calculateRetryDelay n rnd =
     (let delay = Queue_base_delay n;
          jitter = rnd * 0.1 * delay
      in \<lfloor>delay + jitter\<rfloor>)"

text \<open>
  \<open>failJob\<close> reads the clock in \<open>markAsFailed\<close> (\<open>tf\<close>) and again for the retry score
  (\<open>now\<close>).
\<close>

definition failJob ::
  "QueueOptions \<Rightarrow> timestamp \<Rightarrow> timestamp \<Rightarrow> real \<Rightarrow> Job \<Rightarrow> string \<Rightarrow> redis \<Rightarrow> Job \<times> redis"
where
  "failJob opts tf now rnd job0 err q =
     (let job1 = markAsFailed tf err job0;
          q1 = q\<lparr>active := lrem_first (job_id job1) (active q)\<rparr>;
          (job, q2) =
            (if canRetry job1
             then (let retryDelay = Queue_calculateRetryDelay (attempts job1) rnd;
                       executeAt = now + retryDelay;
                       job2 = job1\<lparr>status := DELAYED\<rparr>
                   in (job2, q1\<lparr>delayed := zadd (job_id job2) executeAt (delayed q1)\<rparr>))
             else (let q1a = (if \<not> truthy (removeOnFail opts)
                              then q1\<lparr>failed := lpush (job_id job1) (failed q1)\<rparr> else q1)
                   in (job1, updateStats ''failedJobs'' 1 q1a)));
          q3 = q2\<lparr>jobs := (jobs q2)(job_id job \<mapsto> job)\<rparr>;
          q4 = (if truthy (removeOnFail opts) \<and> \<not> canRetry job
                then q3\<lparr>jobs := (jobs q3)(job_id job := None)\<rparr> else q3)
      in (job, q4))"

definition getJob :: "string \<Rightarrow> redis \<Rightarrow> Job option" where
  "getJob jobId q = jobs q jobId"

text \<open>\<open>removeJob\<close>: six removals, true when any of them removed something.\<close>

definition removeJob :: "string \<Rightarrow> redis \<Rightarrow> bool \<times> redis" where
  "removeJob jobId q =
     (let (n1, w) = lrem_all jobId (waiting q);
          (n2, a) = lrem_all jobId (active q);
          (n3, c) = lrem_all jobId (completed q);
          (n4, f) = lrem_all jobId (failed q);
          (n5, d) = zrem jobId (delayed q);
          n6 = (if jobId \<in> dom (jobs q) then 1 else 0 :: nat)
      in (\<exists>count \<in> set [n1, n2, n3, n4, n5, n6]. count > 0,
          q\<lparr>waiting := w, active := a, completed := c, failed := f, delayed := d,
            jobs := (jobs q)(jobId := None)\<rparr>))"

section \<open>Failing, completing and claiming a job\<close>

lemma Queue_base_delay_int: "Queue_base_delay n = of_int (min (1000 * 2 ^ n) 60000)"
  by (simp add: Queue_base_delay_def of_int_min)

lemma Queue_calculateRetryDelay_bounds:
  assumes "0 \<le> rnd" "rnd < 1"
  shows "Queue_base_delay n \<le> of_int (Queue_calculateRetryDelay n rnd)"
    and "of_int (Queue_calculateRetryDelay n rnd) \<le> Queue_base_delay n + 0.1 * Queue_base_delay n"
proof -
  let ?d = "Queue_base_delay n"
  have d0: "0 \<le> ?d" by (simp add: Queue_base_delay_def)
  have j0: "0 \<le> rnd * 0.1 * ?d" using assms d0 by simp
  have "rnd * ?d \<le> 1 * ?d" using assms d0 by (intro mult_right_mono) auto
  then have j1: "rnd * 0.1 * ?d \<le> 0.1 * ?d" by simp
  obtain z :: int where z: "?d = of_int z" using Queue_base_delay_int by blast
  have "z \<le> \<lfloor>?d + rnd * 0.1 * ?d\<rfloor>" using j0 z by (simp add: le_floor_iff)
  then show "?d \<le> of_int (Queue_calculateRetryDelay n rnd)"
    unfolding Queue_calculateRetryDelay_def Let_def using z by simp
  have "of_int \<lfloor>?d + rnd * 0.1 * ?d\<rfloor> \<le> ?d + rnd * 0.1 * ?d" by (rule of_int_floor_le)
  then show "of_int (Queue_calculateRetryDelay n rnd) \<le> ?d + 0.1 * ?d"
    unfolding Queue_calculateRetryDelay_def Let_def using j1 by linarith
qed

lemma zscore_zadd: "zscore (zadd k s d) k = Some s"
  by (simp add: zscore_def zadd_def update_conv')

lemma truthy_iff: "truthy b \<longleftrightarrow> b = Some True"
  by (cases b) auto

text \<open>
  Claim C1. For every job, error message, store and options, and every value \<open>rnd\<close> of
  \<open>Math.random()\<close> in \<open>[0, 1)\<close>, \<open>failJob\<close> removes one occurrence of the job's id from
  \<open>active\<close>; \<open>markAsFailed\<close> sets the status to failed, and the job ends with the error,
  \<open>failedAt\<close> and \<open>attempts\<close> incremented. If \<open>canRetry\<close> then holds (the incremented
  \<open>attempts\<close> is below \<open>maxAttempts\<close>), the job's status becomes delayed and its id is put
  in \<open>delayed\<close> with score \<open>now + backoff_ms\<close>, where \<open>backoff_ms\<close> is the base
  \<open>min(1000 * 2^attempts, 60000)\<close> (attempts after the increment) plus a jitter between
  \<open>0\<close> and a tenth of that base, rounded down; \<open>stats\<close> and the \<open>failed\<close> list are
  untouched. Otherwise the counter \<open>failedJobs\<close> of \<open>stats\<close> becomes one more than it
  was (1 when it was absent), the id is pushed on the left of \<open>failed\<close> unless
  \<open>removeOnFail\<close> is true, and the record is written back, or deleted when
  \<open>removeOnFail\<close> is true.
\<close>

theorem failJob_spec:
  assumes "0 \<le> rnd" and "rnd < 1"
  shows "case failJob opts tf now rnd job err q of (job', q') \<Rightarrow>
     active q' = remove1 (job_id job) (active q) \<and>
     status (markAsFailed tf err job) = FAILED \<and>
     job_id job' = job_id job \<and> error job' = Some err \<and> failedAt job' = Some tf \<and>
     attempts job' = attempts job + 1 \<and>
     (let base = min (1000 * 2 ^ (attempts job + 1)) 60000 :: real;
          backoff_ms = \<lfloor>base + rnd * 0.1 * base\<rfloor>
      in if int (attempts job + 1) < maxAttempts job
         then canRetry (markAsFailed tf err job) \<and>
              status job' = DELAYED \<and>
              map_of (delayed q') = (map_of (delayed q))(job_id job \<mapsto> now + backoff_ms) \<and>
              base \<le> of_int backoff_ms \<and> of_int backoff_ms \<le> base + 0.1 * base \<and>
              stats q' = stats q \<and> failed q' = failed q
         else \<not> canRetry (markAsFailed tf err job) \<and>
              status job' = FAILED \<and>
              stats q' = (stats q)(''failedJobs'' \<mapsto>
                 (case stats q ''failedJobs'' of None \<Rightarrow> 0 | Some v \<Rightarrow> v) + 1) \<and>
              failed q' = (if removeOnFail opts = Some True then failed q else job_id job # failed q) \<and>
              jobs q' = (if removeOnFail opts = Some True then (jobs q)(job_id job := None)
                         else (jobs q)(job_id job \<mapsto> job')))"
proof (cases "int (attempts job + 1) < maxAttempts job")
  case True
  then have cr: "canRetry (markAsFailed tf err job)"
    by (simp add: canRetry_def markAsFailed_def)
  have b: "min (1000 * 2 ^ Suc (attempts job)) 60000
        \<le> real_of_int \<lfloor>min (1000 * 2 ^ Suc (attempts job)) 60000
             + rnd * 0.1 * min (1000 * 2 ^ Suc (attempts job)) 60000\<rfloor>"
    "real_of_int \<lfloor>min (1000 * 2 ^ Suc (attempts job)) 60000
             + rnd * 0.1 * min (1000 * 2 ^ Suc (attempts job)) 60000\<rfloor>
        \<le> min (1000 * 2 ^ Suc (attempts job)) 60000 + 0.1 * min (1000 * 2 ^ Suc (attempts job)) 60000"
    using Queue_calculateRetryDelay_bounds[OF assms, of "Suc (attempts job)"]
    by (simp_all only: Queue_base_delay_def Queue_calculateRetryDelay_def Let_def)
  have nc: "\<not> canRetry ((markAsFailed tf err job)\<lparr>status := DELAYED\<rparr>)"
    by (simp add: canRetry_def)
  have s: "failJob opts tf now rnd job err q =
      ((markAsFailed tf err job)\<lparr>status := DELAYED\<rparr>,
       q\<lparr>active := remove1 (job_id job) (active q),
         delayed := AList.update (job_id job)
            (now + \<lfloor>min (1000 * 2 ^ Suc (attempts job)) 60000
                     + rnd * 0.1 * min (1000 * 2 ^ Suc (attempts job)) 60000\<rfloor>) (delayed q),
         jobs := (if truthy (removeOnFail opts) then (jobs q)(job_id job := None)
                  else (jobs q)(job_id job \<mapsto> (markAsFailed tf err job)\<lparr>status := DELAYED\<rparr>))\<rparr>)"
    using cr nc
    by (simp add: failJob_def Let_def lrem_first_def zadd_def Queue_calculateRetryDelay_def
        Queue_base_delay_def markAsFailed_def del: power_Suc)
  show ?thesis
    unfolding s using True cr b
    by (simp add: Let_def update_conv' markAsFailed_def del: power_Suc)
next
  case False
  then have cr: "\<not> canRetry (markAsFailed tf err job)"
    by (simp add: canRetry_def markAsFailed_def)
  show ?thesis using False cr
    by (simp add: failJob_def Let_def lrem_first_def updateStats_def hincrby_def lpush_def
        markAsFailed_def truthy_iff del: power_Suc)
qed

text \<open>
  The record in the retry branch: \<open>failJob\<close> tests \<open>canRetry\<close> again after it has set the
  status to delayed, so with \<open>removeOnFail\<close> the record of a job scheduled for retry is
  deleted as well.
\<close>

lemma failJob_retry_record:
  assumes "canRetry (markAsFailed tf err job)"
  shows "jobs (snd (failJob opts tf now rnd job err q)) =
           (if truthy (removeOnFail opts) then (jobs q)(job_id job := None)
            else (jobs q)(job_id job \<mapsto> fst (failJob opts tf now rnd job err q)))"
  using assms by (simp add: failJob_def Let_def canRetry_def markAsFailed_def)

theorem failJob_spec_witness:
  "(0::real) \<le> 0 \<and> (0::real) < 1 \<and>
   (case failJob (Queue_options 5 no_QueueOptions) 10 20 0
           (markAsActive 1 (new_Job ''a'' 0 ''q'' (JsonData ''{}'') None None)) ''boom''
           (empty_redis\<lparr>active := [''a'']\<rparr>) of
      (job', q') \<Rightarrow>
        active q' = [] \<and> attempts job' = 1 \<and> status job' = DELAYED \<and>
        map_of (delayed q') ''a'' = Some 2020 \<and> stats q' = Map.empty \<and> failed q' = []) \<and>
   (case failJob (Queue_options 5 no_QueueOptions) 10 20 0
           (markAsActive 1 (new_Job ''b'' 0 ''q'' (JsonData ''{}'')
              (Some (empty_JobOptions\<lparr>jo_attempts := Some 1\<rparr>)) None)) ''boom''
           (empty_redis\<lparr>active := [''b''], stats := [''failedJobs'' \<mapsto> 4]\<rparr>) of
      (job', q') \<Rightarrow>
        active q' = [] \<and> attempts job' = 1 \<and> status job' = FAILED \<and>
        stats q' ''failedJobs'' = Some 5 \<and> failed q' = [''b''] \<and> delayed q' = [] \<and>
        jobs q' ''b'' = Some job')"
proof -
  have 1: "case failJob (Queue_options 5 no_QueueOptions) 10 20 0
           (markAsActive 1 (new_Job ''a'' 0 ''q'' (JsonData ''{}'') None None)) ''boom''
           (empty_redis\<lparr>active := [''a'']\<rparr>) of
      (job', q') \<Rightarrow>
        active q' = [] \<and> attempts job' = 1 \<and> status job' = DELAYED \<and>
        map_of (delayed q') ''a'' = Some 2020 \<and> stats q' = Map.empty \<and> failed q' = []"
    using failJob_spec [where rnd = 0 and opts = "Queue_options 5 no_QueueOptions" and tf = 10
      and now = 20 and err = "''boom''" and q = "empty_redis\<lparr>active := [''a'']\<rparr>"
      and job = "markAsActive 1 (new_Job ''a'' 0 ''q'' (JsonData ''{}'') None None)"]
    by (simp add: Let_def markAsActive_def new_Job_def empty_redis_def split: prod.splits)
  have 2: "case failJob (Queue_options 5 no_QueueOptions) 10 20 0
           (markAsActive 1 (new_Job ''b'' 0 ''q'' (JsonData ''{}'')
              (Some (empty_JobOptions\<lparr>jo_attempts := Some 1\<rparr>)) None)) ''boom''
           (empty_redis\<lparr>active := [''b''], stats := [''failedJobs'' \<mapsto> 4]\<rparr>) of
      (job', q') \<Rightarrow>
        active q' = [] \<and> attempts job' = 1 \<and> status job' = FAILED \<and>
        stats q' ''failedJobs'' = Some 5 \<and> failed q' = [''b''] \<and> delayed q' = [] \<and>
        jobs q' ''b'' = Some job'"
    using failJob_spec [where rnd = 0 and opts = "Queue_options 5 no_QueueOptions" and tf = 10
      and now = 20 and err = "''boom''"
      and q = "empty_redis\<lparr>active := [''b''], stats := [''failedJobs'' \<mapsto> 4]\<rparr>"
      and job = "markAsActive 1 (new_Job ''b'' 0 ''q'' (JsonData ''{}'')
              (Some (empty_JobOptions\<lparr>jo_attempts := Some 1\<rparr>)) None)"]
    by (simp add: Let_def markAsActive_def new_Job_def empty_redis_def empty_JobOptions_def
        Queue_options_def no_QueueOptions_def failJob_def canRetry_def markAsFailed_def
        updateStats_def lrem_first_def lpush_def split: prod.splits)
  show ?thesis using 1 2 by simp
qed

lemma promote_one_frame:
  "active (promote_one k q) = active q" "stats (promote_one k q) = stats q"
  "completed (promote_one k q) = completed q" "failed (promote_one k q) = failed q"
  by (simp_all add: promote_one_def Let_def split: option.splits)

lemma promote_all_frame:
  "active (promote_all ks q) = active q \<and> stats (promote_all ks q) = stats q \<and>
   completed (promote_all ks q) = completed q \<and> failed (promote_all ks q) = failed q"
  by (induction ks arbitrary: q) (simp_all add: promote_one_frame)

lemma processDelayedJobs_frame:
  "active (processDelayedJobs now q) = active q" "stats (processDelayedJobs now q) = stats q"
  "completed (processDelayedJobs now q) = completed q" "failed (processDelayedJobs now q) = failed q"
  by (simp_all add: processDelayedJobs_def promote_all_frame)

text \<open>
  Claim C9. When the id that \<open>getNextJob\<close> pops from \<open>waiting\<close> (after promoting the
  ready delayed jobs) has no record in the \<open>jobs\<close> hash, \<open>getNextJob\<close> returns \<open>null\<close>
  and leaves the store as it was after the promotion but for the popped id: nothing is
  pushed back on \<open>waiting\<close>, \<open>active\<close> or \<open>delayed\<close>, no record is written, and
  \<open>stats\<close> is unchanged. The result is a value, not an error.
\<close>

theorem getNextJob_missing_record:
  assumes "waiting (processDelayedJobs now q) = rest @ [jobId]"
    and "jobs (processDelayedJobs now q) jobId = None"
  shows "getNextJob now tp q = (None, (processDelayedJobs now q)\<lparr>waiting := rest\<rparr>) \<and>
         active (snd (getNextJob now tp q)) = active q \<and>
         stats (snd (getNextJob now tp q)) = stats q"
  using assms by (simp add: getNextJob_def brpop_def Let_def processDelayedJobs_frame)

theorem getNextJob_missing_record_witness:
  "waiting (processDelayedJobs 0 (empty_redis\<lparr>waiting := [''ghost'']\<rparr>)) = [] @ [''ghost''] \<and>
   jobs (processDelayedJobs 0 (empty_redis\<lparr>waiting := [''ghost'']\<rparr>)) ''ghost'' = None \<and>
   getNextJob 0 1 (empty_redis\<lparr>waiting := [''ghost'']\<rparr>) = (None, empty_redis)"
proof -
  have w: "waiting (processDelayedJobs 0 (empty_redis\<lparr>waiting := [''ghost'']\<rparr>)) = [] @ [''ghost'']"
    by (simp add: processDelayedJobs_def zrangebyscore_def empty_redis_def)
  have j: "jobs (processDelayedJobs 0 (empty_redis\<lparr>waiting := [''ghost'']\<rparr>)) ''ghost'' = None"
    by (simp add: processDelayedJobs_def zrangebyscore_def empty_redis_def)
  show ?thesis
    using getNextJob_missing_record [OF w j, of 1] w j
    by (simp add: processDelayedJobs_def zrangebyscore_def empty_redis_def)
qed

text \<open>
  Claim C10. A queue constructed without explicit retention options has
  \<open>removeOnComplete = true\<close> and \<open>removeOnFail = false\<close>. Under these options
  \<open>completeJob\<close> deletes the job's record, so \<open>getJob\<close> of its id returns \<open>null\<close>; and a
  failure that cannot be retried keeps the record (status failed) and pushes the id on
  the left of \<open>failed\<close>.
\<close>

theorem default_retention:
  assumes "removeOnComplete given = None" and "removeOnFail given = None"
  shows "removeOnComplete (Queue_options c given) = Some True \<and>
         removeOnFail (Queue_options c given) = Some False \<and>
         (case completeJob (Queue_options c given) tc job res q of
            (job', q') \<Rightarrow> jobs q' (job_id job) = None \<and> getJob (job_id job) q' = None) \<and>
         (\<not> canRetry (markAsFailed tf err job) \<longrightarrow>
            (case failJob (Queue_options c given) tf now rnd job err q of
               (job', q') \<Rightarrow>
                 status job' = FAILED \<and> jobs q' (job_id job) = Some job' \<and>
                 getJob (job_id job) q' = Some job' \<and>
                 failed q' = job_id job # failed q))"
  using assms
  by (simp add: Queue_options_def completeJob_def failJob_def Let_def getJob_def
      updateStats_def lpush_def markAsCompleted_def markAsFailed_def)

theorem default_retention_witness:
  "removeOnComplete no_QueueOptions = None \<and> removeOnFail no_QueueOptions = None \<and>
   \<not> canRetry (markAsFailed 5 ''boom''
        (new_Job ''a'' 0 ''q'' (JsonData ''{}'')
           (Some (empty_JobOptions\<lparr>jo_attempts := Some 1\<rparr>)) None)) \<and>
   (case failJob (Queue_options 5 no_QueueOptions) 5 6 0
           (new_Job ''a'' 0 ''q'' (JsonData ''{}'')
              (Some (empty_JobOptions\<lparr>jo_attempts := Some 1\<rparr>)) None) ''boom'' empty_redis of
      (job', q') \<Rightarrow> getJob ''a'' q' = Some job' \<and> failed q' = [''a''])"
  using default_retention [where given = no_QueueOptions and c = 5 and tc = 0 and res = None
      and q = empty_redis and tf = 5 and err = "''boom''" and now = 6 and rnd = 0
      and job = "new_Job ''a'' 0 ''q'' (JsonData ''{}'')
                   (Some (empty_JobOptions\<lparr>jo_attempts := Some 1\<rparr>)) None"]
  by (simp add: no_QueueOptions_def canRetry_def markAsFailed_def new_Job_def empty_JobOptions_def
      empty_redis_def split: prod.splits)

section \<open>HTTP-task worker (src/workers/http-task-worker.ts)\<close>

text \<open>
  \<open>Number.prototype.toString\<close> on a whole number (below \<open>10^21\<close> in magnitude): its
  decimal digits, with a sign when negative.
\<close>

fun string_of_nat :: "nat \<Rightarrow> string" where
  "string_of_nat n =
     (if n < 10 then [''0123456789'' ! n]
      else string_of_nat (n div 10) @ [''0123456789'' ! (n mod 10)])"

definition Number_toString :: "int \<Rightarrow> string" where
  "Number_toString i =
     (if i < 0 then CHR ''-'' # string_of_nat (nat (- i)) else string_of_nat (nat i))"

text \<open>
  An object with string keys is an association list in insertion order. The spread
  \<open>{...obj, ...src}\<close> assigns the entries of \<open>src\<close> in order: an existing key keeps its
  place and takes the new value, a new key goes to the end; spreading \<open>undefined\<close> adds
  nothing.
\<close>

definition js_spread ::
  "(string \<times> string) list \<Rightarrow> (string \<times> string) list option \<Rightarrow> (string \<times> string) list"
where
  "js_spread obj src =
     (case src of None \<Rightarrow> obj | Some kvs \<Rightarrow> fold (\<lambda>(k, v). AList.update k v) kvs obj)"

record http_request =
  req_method :: string
  req_url :: string
  req_data :: json
  req_headers :: "(string \<times> string) list"
  req_timeout :: int

text \<open>
  The request that \<open>HttpTaskWorker.makeHttpRequest\<close> hands to \<open>axios\<close>.
  \<open>httpTask.method || 'POST'\<close> and \<open>httpTask.timeout || 30000\<close> replace a missing, empty
  or zero value.
\<close>

definition HttpTaskWorker_makeHttpRequest :: "HttpTaskPayload \<Rightarrow> Job \<Rightarrow> http_request" where
  "HttpTaskWorker_makeHttpRequest httpTask job =
     \<lparr>req_method = (case ht_method httpTask of None \<Rightarrow> ''POST'' | Some m \<Rightarrow> if m = [] then ''POST'' else m),
      req_url = ht_url httpTask,
      req_data = ht_body httpTask,
      req_headers =
        js_spread
          [(''Content-Type'', ''application/json''),
           (''User-Agent'', ''Queue-Service-HttpWorker/1.0''),
           (''X-Queue-Service-Job-Id'', job_id job),
           (''X-Queue-Service-Attempt'', Number_toString (int (attempts job))),
           (''X-Queue-Service-Max-Attempts'', Number_toString (maxAttempts job))]
          (ht_headers httpTask),
      req_timeout = (case ht_timeout httpTask of None \<Rightarrow> 30000 | Some t \<Rightarrow> if t = 0 then 30000 else t)\<rparr>"

lemma map_of_fold_update:
  "map_of (fold (\<lambda>(k, v). AList.update k v) kvs obj) = map_of obj ++ map_of (rev kvs)"
proof (induction kvs arbitrary: obj)
  case Nil
  then show ?case by simp
next
  case (Cons kv kvs)
  obtain k v where kv: "kv = (k, v)" by (cases kv)
  show ?case
    by (simp add: Cons.IH kv update_conv' map_add_def fun_eq_iff split: option.splits)
qed

text \<open>
  Claim C3, as amended. The caller's headers are spread last, so they override every
  header the worker sets, the three correlation headers included: the value of a header
  name in the request is the caller's value for that name when the caller supplies one,
  and otherwise the worker's value, which is \<open>application/json\<close> for \<open>Content-Type\<close>,
  \<open>Queue-Service-HttpWorker/1.0\<close> for \<open>User-Agent\<close>, and the job's id, \<open>attempts\<close> and
  \<open>maxAttempts\<close> for \<open>X-Queue-Service-Job-Id\<close>, \<open>X-Queue-Service-Attempt\<close> and
  \<open>X-Queue-Service-Max-Attempts\<close>.
\<close>

theorem makeHttpRequest_headers:
  "map_of (req_headers (HttpTaskWorker_makeHttpRequest httpTask job)) name =
     (case map_of (rev (case ht_headers httpTask of None \<Rightarrow> [] | Some kvs \<Rightarrow> kvs)) name of
        Some v \<Rightarrow> Some v
      | None \<Rightarrow>
          map_of
            [(''Content-Type'', ''application/json''),
             (''User-Agent'', ''Queue-Service-HttpWorker/1.0''),
             (''X-Queue-Service-Job-Id'', job_id job),
             (''X-Queue-Service-Attempt'', Number_toString (int (attempts job))),
             (''X-Queue-Service-Max-Attempts'', Number_toString (maxAttempts job))] name)"
  by (simp add: HttpTaskWorker_makeHttpRequest_def js_spread_def map_of_fold_update map_add_def
      split: option.splits)

text \<open>
  Claim C3 as stated fails: a caller header named \<open>X-Queue-Service-Job-Id\<close> replaces the
  job's id in the request.
\<close>

theorem makeHttpRequest_headers_counterexample:
  "map_of (req_headers (HttpTaskWorker_makeHttpRequest
      \<lparr>ht_url = ''http://echo/ok'', ht_method = None,
        ht_headers = Some [(''X-Queue-Service-Job-Id'', ''spoofed'')],
        ht_body = ''{}'', ht_timeout = None\<rparr>
      (new_Job ''a'' 0 ''q'' (JsonData ''{}'') None None))) ''X-Queue-Service-Job-Id''
   = Some ''spoofed'' \<and>
   Some ''spoofed'' \<noteq> Some (job_id (new_Job ''a'' 0 ''q'' (JsonData ''{}'') None None))"
  by (simp add: HttpTaskWorker_makeHttpRequest_def js_spread_def new_Job_def)

section \<open>Webhook dispatcher (src/services/webhook-service.ts)\<close>

datatype webhook_event = job_completed | job_failed

record payload_job =
  pj_id :: string
  pj_queueName :: string
  pj_status :: JobStatus
  pj_data :: job_data
  pj_result :: "json option"
  pj_error :: "string option"
  pj_attempts :: nat
  pj_maxAttempts :: int
  pj_createdAt :: timestamp
  pj_processedAt :: "timestamp option"
  pj_completedAt :: "timestamp option"
  pj_failedAt :: "timestamp option"

record webhook_meta =
  wm_attempt :: int
  wm_maxAttempts :: int

text \<open>\<open>WebhookPayload\<close>: the keys \<open>event\<close>, \<open>job\<close>, \<open>timestamp\<close> and \<open>webhook\<close>.\<close>

record WebhookPayload =
  pl_event :: webhook_event
  pl_job :: payload_job
  pl_timestamp :: timestamp
  pl_webhook :: webhook_meta

text \<open>
  The object \<open>{...payload, attempt, maxAttempts}\<close> that \<open>executeWithRetry\<close> sends: the
  payload's four keys and the two keys \<open>attempt\<close> and \<open>maxAttempts\<close> beside them.
\<close>

record WebhookBody = WebhookPayload +
  body_attempt :: int
  body_maxAttempts :: int

record WebhookResult =
  success :: bool
  statusCode :: "int option"
  responseData :: "json option"
  wr_error :: "string option"
  duration :: int
  wr_attempt :: int

text \<open>The service's two fields, read from the configuration at construction.\<close>

record WebhookService =
  maxRetries :: int
  svc_timeout :: int

definition default_WebhookService :: WebhookService where
  "default_WebhookService = \<lparr>maxRetries = 3, svc_timeout = 30000\<rparr>"

record webhook_request =
  wreq_method :: string
  wreq_url :: string
  wreq_data :: WebhookBody
  wreq_headers :: "(string \<times> string) list"
  wreq_timeout :: int

text \<open>
  The endpoint either replies (status, status text, body) or does not (a transport error
  with its message). \<open>axios\<close> with \<open>validateStatus: 200 \<le> status < 300\<close> resolves on a
  2xx reply and rejects otherwise.
\<close>

datatype net_reply = Reply int string json | NoReply string

datatype axios_error = HttpError int string | TransportError string

fun axios :: "net_reply \<Rightarrow> axios_error + (int \<times> json)" where
  "axios (Reply st txt d) = (if 200 \<le> st \<and> st < 300 then Inr (st, d) else Inl (HttpError st txt))"
| "axios (NoReply msg) = Inl (TransportError msg)"

fun errorMessage :: "axios_error \<Rightarrow> string" where
  "errorMessage (HttpError st txt) = ''HTTP '' @ Number_toString st @ '': '' @ txt"
| "errorMessage (TransportError msg) = (if msg = [] then ''Unknown error'' else msg)"

fun response_status :: "axios_error \<Rightarrow> int option" where
  "response_status (HttpError st txt) = Some st"
| "response_status (TransportError msg) = None"

text \<open>
  What the dispatcher cannot decide: the endpoint's reply to a request (given the number
  of requests made before it), the value of the \<open>n\<close>-th request's \<open>Math.random()\<close> and
  the time each request took.
\<close>

record env =
  env_endpoint :: "webhook_request \<Rightarrow> nat \<Rightarrow> net_reply"
  env_random :: "nat \<Rightarrow> real"
  env_elapsed :: "nat \<Rightarrow> int"

text \<open>
  The state a worker process acts on: the queue's store, the jobs its consumers hold
  (returned by \<open>getNextJob\<close> and not yet completed or failed), the webhook requests sent
  and the pauses taken between them.
\<close>

record world =
  store :: redis
  held :: "Job list"
  sent :: "webhook_request list"
  slept :: "int list"

definition createPayload ::
  "WebhookService \<Rightarrow> timestamp \<Rightarrow> Job \<Rightarrow> webhook_event \<Rightarrow> int \<Rightarrow> WebhookPayload"
where
  "createPayload svc now job event attempt =
     \<lparr>pl_event = event,
      pl_job =
        \<lparr>pj_id = job_id job, pj_queueName = queueName job, pj_status = status job,
         pj_data = data job, pj_result = result job, pj_error = error job,
         pj_attempts = attempts job, pj_maxAttempts = maxAttempts job,
         pj_createdAt = createdAt job, pj_processedAt = processedAt job,
         pj_completedAt = completedAt job, pj_failedAt = failedAt job\<rparr>,
      pl_timestamp = now,
      pl_webhook = \<lparr>wm_attempt = attempt, wm_maxAttempts = maxRetries svc\<rparr>\<rparr>"

definition WebhookService_makeHttpRequest ::
  "WebhookService \<Rightarrow> WebhookConfig \<Rightarrow> WebhookBody \<Rightarrow> webhook_request"
where
  "WebhookService_makeHttpRequest svc webhookConfig payload =
     \<lparr>wreq_method =
        (case wh_method webhookConfig of None \<Rightarrow> ''POST'' | Some m \<Rightarrow> if m = [] then ''POST'' else m),
      wreq_url = wh_url webhookConfig,
      wreq_data = payload,
      wreq_headers =
        js_spread
          [(''Content-Type'', ''application/json''), (''User-Agent'', ''Queue-Service-Webhook/1.0'')]
          (wh_headers webhookConfig),
      wreq_timeout =
        (case wh_timeout webhookConfig of
           None \<Rightarrow> svc_timeout svc
         | Some t \<Rightarrow> if t = 0 then svc_timeout svc else t)\<rparr>"

text \<open>\<open>Math.pow(2, e)\<close> at a whole exponent.\<close>

definition pow2 :: "int \<Rightarrow> real" where
  "pow2 e = (if 0 \<le> e then 2 ^ nat e else 1 / 2 ^ nat (- e))"

definition Webhook_base_delay :: "int \<Rightarrow> real" where
  "Webhook_base_delay attempt = min (1000 * pow2 (attempt - 1)) 30000"

text \<open>
  \<open>WebhookService.calculateRetryDelay\<close>; \<open>Math.round\<close> rounds halves up, as \<open>round\<close>
  does.
\<close>

definition Webhook_calculateRetryDelay :: "int \<Rightarrow> real \<Rightarrow> int" where
  "Webhook_calculateRetryDelay attempt rnd =
     (let delay = Webhook_base_delay attempt;
          jitter = delay * 0.25 * (rnd * 2 - 1)
      in round (delay + jitter))"

function executeWithRetry ::
  "WebhookService \<Rightarrow> env \<Rightarrow> WebhookConfig \<Rightarrow> WebhookPayload \<Rightarrow> int \<Rightarrow> int \<Rightarrow> world
     \<Rightarrow> WebhookResult \<times> world"
where
  "executeWithRetry svc e webhookConfig payload attempt maxAttempts' w =
     (let webhookPayload = WebhookPayload.extend payload (WebhookBody.fields attempt maxAttempts');
          request = WebhookService_makeHttpRequest svc webhookConfig webhookPayload;
          n = length (sent w);
          w1 = w\<lparr>sent := sent w @ [request]\<rparr>
      in case axios (env_endpoint e request n) of
           Inr (st, d) \<Rightarrow>
             (\<lparr>success = True, statusCode = Some st, responseData = Some d, wr_error = None,
               duration = env_elapsed e n, wr_attempt = attempt\<rparr>, w1)
         | Inl axiosError \<Rightarrow>
             if attempt < maxAttempts'
             then executeWithRetry svc e webhookConfig payload (attempt + 1) maxAttempts'
                    (w1\<lparr>slept := slept w1 @ [Webhook_calculateRetryDelay attempt (env_random e n)]\<rparr>)
             else (\<lparr>success = False, statusCode = response_status axiosError, responseData = None,
                    wr_error = Some (errorMessage axiosError), duration = env_elapsed e n,
                    wr_attempt = attempt\<rparr>, w1))"
  by pat_completeness auto
termination
  by (relation "measure (\<lambda>(svc, e, webhookConfig, payload, attempt, maxAttempts', w).
        nat (maxAttempts' - attempt))") auto

declare executeWithRetry.simps [simp del]

definition WebhookService_executeWebhook ::
  "WebhookService \<Rightarrow> env \<Rightarrow> timestamp \<Rightarrow> Job \<Rightarrow> webhook_event \<Rightarrow> WebhookConfig \<Rightarrow> world
     \<Rightarrow> WebhookResult \<times> world"
where
  "WebhookService_executeWebhook svc e now job event webhookConfig w =
     executeWithRetry svc e webhookConfig (createPayload svc now job event 1) 1
       (case retryAttempts webhookConfig of
          None \<Rightarrow> maxRetries svc
        | Some n \<Rightarrow> if n = 0 then maxRetries svc else n) w"

text \<open>
  \<open>Worker.executeWebhook\<close> (src/workers/worker.ts): dispatch when the job has a
  webhook; the result is only logged.
\<close>

definition Worker_executeWebhook ::
  "WebhookService \<Rightarrow> env \<Rightarrow> timestamp \<Rightarrow> Job \<Rightarrow> webhook_event \<Rightarrow> world \<Rightarrow> world"
where
  "Worker_executeWebhook svc e now job event w =
     (case webhook job of
        None \<Rightarrow> w
      | Some webhookConfig \<Rightarrow> snd (WebhookService_executeWebhook svc e now job event webhookConfig w))"

lemma executeWithRetry_store:
  "store (snd (executeWithRetry svc e cfg payload attempt maxAttempts' w)) = store w"
proof (induction svc e cfg payload attempt maxAttempts' w rule: executeWithRetry.induct)
  case (1 svc e cfg payload attempt maxAttempts' w)
  show ?case
    by (subst executeWithRetry.simps) (use 1 in \<open>auto simp: Let_def split: sum.splits\<close>)
qed

lemma executeWithRetry_held:
  "held (snd (executeWithRetry svc e cfg payload attempt maxAttempts' w)) = held w"
proof (induction svc e cfg payload attempt maxAttempts' w rule: executeWithRetry.induct)
  case (1 svc e cfg payload attempt maxAttempts' w)
  show ?case
    by (subst executeWithRetry.simps) (use 1 in \<open>auto simp: Let_def split: sum.splits\<close>)
qed

text \<open>
  Claim C6. For every job, event and world, and for every behaviour of the endpoint
  (a 2xx reply, another reply, no reply, or failures until the retries run out), the
  webhook dispatch leaves the queue's store as it was: the job's record (status, result,
  error, attempts) and every list, the sorted set and the counters are unchanged, and so
  are the jobs the consumers hold. The dispatch only adds to the requests sent and the
  pauses taken.
\<close>

theorem webhook_dispatch_frame:
  "store (Worker_executeWebhook svc e now job event w) = store w \<and>
   held (Worker_executeWebhook svc e now job event w) = held w \<and>
   getJob (job_id job) (store (Worker_executeWebhook svc e now job event w))
     = getJob (job_id job) (store w)"
  by (simp add: Worker_executeWebhook_def WebhookService_executeWebhook_def
      executeWithRetry_store executeWithRetry_held split: option.splits)

text \<open>An endpoint that answers every request with status 500.\<close>

definition always_500 :: env where
  "always_500 =
     \<lparr>env_endpoint = (\<lambda>request n. Reply 500 ''Internal Server Error'' ''''),
      env_random = (\<lambda>n. 0), env_elapsed = (\<lambda>n. 5)\<rparr>"

text \<open>
  Claim C4 says that the body of the \<open>k\<close>-th try has \<open>webhook.attempt = k\<close> and
  \<open>webhook.maxAttempts = N\<close>. The code builds the payload once, with
  \<open>webhook.attempt = 1\<close> and \<open>webhook.maxAttempts\<close> the service's default, and on each
  try spreads it into a new object with the keys \<open>attempt\<close> and \<open>maxAttempts\<close> at the
  top level. With \<open>retryAttempts = 2\<close> and an endpoint that always answers 500, the two
  bodies sent carry (\<open>webhook.attempt\<close>, \<open>webhook.maxAttempts\<close>, \<open>attempt\<close>,
  \<open>maxAttempts\<close>) = (1, 3, 1, 2) and (1, 3, 2, 2).
\<close>

theorem webhook_body_second_try:
  "map (\<lambda>r. (wm_attempt (pl_webhook (wreq_data r)), wm_maxAttempts (pl_webhook (wreq_data r)),
             body_attempt (wreq_data r), body_maxAttempts (wreq_data r)))
     (sent (snd (WebhookService_executeWebhook default_WebhookService always_500 0
        (new_Job ''a'' 0 ''q'' (JsonData ''{}'') None None) job_failed
        \<lparr>wh_url = ''http://hook'', wh_method = None, wh_headers = None, wh_timeout = None,
          retryAttempts = Some 2\<rparr>
        \<lparr>store = empty_redis, held = [], sent = [], slept = []\<rparr>)))
   = [(1, 3, 1, 2), (1, 3, 2, 2)]"
  by (simp add: WebhookService_executeWebhook_def executeWithRetry.simps Let_def
      default_WebhookService_def always_500_def createPayload_def
      WebhookService_makeHttpRequest_def WebhookPayload.extend_def WebhookBody.fields_def)

section \<open>Backoff bounds\<close>

lemma Webhook_base_delay_int:
  assumes "1 \<le> n"
  shows "Webhook_base_delay (int n) = of_int (4 * min (250 * 2 ^ (n - 1)) 7500)"
proof -
  have "nat (int n - 1) = n - 1" by simp
  then have p: "pow2 (int n - 1) = 2 ^ (n - 1)" using assms by (simp add: pow2_def)
  have "4 * min (250 * 2 ^ (n - 1)) 7500 = min (1000 * 2 ^ (n - 1)) (30000::int)"
    by (simp add: min_def)
  then have "(of_int (4 * min (250 * 2 ^ (n - 1)) 7500) :: real)
      = of_int (min (1000 * 2 ^ (n - 1)) 30000)"
    by (simp only:)
  also have "\<dots> = min (1000 * 2 ^ (n - 1)) 30000"
    by (simp add: of_int_min)
  finally show ?thesis by (simp only: Webhook_base_delay_def p)
qed

lemma Webhook_calculateRetryDelay_bounds:
  assumes "1 \<le> n" "0 \<le> rnd" "rnd < 1"
  shows "0.75 * Webhook_base_delay (int n) \<le> of_int (Webhook_calculateRetryDelay (int n) rnd)"
    and "of_int (Webhook_calculateRetryDelay (int n) rnd) \<le> 1.25 * Webhook_base_delay (int n)"
proof -
  define z :: int where "z = min (250 * 2 ^ (n - 1)) 7500"
  have d: "Webhook_base_delay (int n) = of_int (4 * z)"
    using Webhook_base_delay_int[OF assms(1)] by (simp add: z_def)
  have z0: "0 \<le> z" by (simp add: z_def)
  let ?x = "Webhook_base_delay (int n) + Webhook_base_delay (int n) * 0.25 * (rnd * 2 - 1)"
  have x: "?x = of_int z * (3 + 2 * rnd)" by (simp add: d algebra_simps)
  have "of_int z * 3 \<le> of_int z * (3 + 2 * rnd)"
    using z0 assms by (intro mult_left_mono) auto
  then have lo: "of_int (3 * z) \<le> ?x" unfolding x by (simp add: mult.commute)
  have "of_int z * (3 + 2 * rnd) \<le> of_int z * 5"
    using z0 assms by (intro mult_left_mono) auto
  then have hi: "?x \<le> of_int (5 * z)" unfolding x by (simp add: mult.commute)
  have r3: "round (of_int (3 * z) :: real) = 3 * z" by (rule round_of_int)
  have r5: "round (of_int (5 * z) :: real) = 5 * z" by (rule round_of_int)
  have "3 * z \<le> round ?x" using round_mono[OF lo] unfolding r3 .
  then have 1: "3 * z \<le> Webhook_calculateRetryDelay (int n) rnd"
    by (simp only: Webhook_calculateRetryDelay_def Let_def)
  have "round ?x \<le> 5 * z" using round_mono[OF hi] unfolding r5 .
  then have 2: "Webhook_calculateRetryDelay (int n) rnd \<le> 5 * z"
    by (simp only: Webhook_calculateRetryDelay_def Let_def)
  have "0.75 * Webhook_base_delay (int n) = of_int (3 * z)" by (simp add: d)
  then show "0.75 * Webhook_base_delay (int n) \<le> of_int (Webhook_calculateRetryDelay (int n) rnd)"
    using 1 by (simp only: of_int_le_iff)
  have "1.25 * Webhook_base_delay (int n) = of_int (5 * z)" by (simp add: d)
  then show "of_int (Webhook_calculateRetryDelay (int n) rnd) \<le> 1.25 * Webhook_base_delay (int n)"
    using 2 by (simp only: of_int_le_iff)
qed

lemma small_cases_7: "1 \<le> n \<Longrightarrow> n \<le> 7 \<Longrightarrow> n = 1 \<or> n = 2 \<or> n = 3 \<or> n = 4 \<or> n = 5 \<or> n = 6 \<or> n = (7::nat)"
  by arith

lemma Queue_stated_lower:
  assumes "1 \<le> n" "n \<le> 7"
  shows "1000 * 2 ^ (n - 1) * 0.9 \<le> Queue_base_delay n"
  using small_cases_7[OF assms] by (auto simp: Queue_base_delay_def)

lemma Webhook_stated_upper:
  assumes "1 \<le> n" "n \<le> 5"
  shows "1.25 * Webhook_base_delay (int n) \<le> min (1000 * 2 ^ n) 30000 * 1.1"
proof -
  have "n = 1 \<or> n = 2 \<or> n = 3 \<or> n = 4 \<or> n = 5" using assms by arith
  then show ?thesis by (auto simp: Webhook_base_delay_def pow2_def)
qed

text \<open>
  Claim C5, as amended. For the \<open>n\<close>-th failure (\<open>n \<ge> 1\<close>) and every jitter value in
  \<open>[0, 1)\<close>: the queue's retry delay lies between \<open>min(1000 * 2^n, 60000)\<close> and 1.1 times
  that, hence is at least \<open>1000 * 2^(n-1) * 0.9\<close> for \<open>n \<le> 7\<close>; the webhook dispatcher's
  retry delay lies between 0.75 and 1.25 times \<open>min(1000 * 2^(n-1), 30000)\<close>, hence is at
  most \<open>min(1000 * 2^n, 30000) * 1.1\<close> for \<open>n \<le> 5\<close>.
\<close>

theorem backoff_bounds:
  assumes "1 \<le> n" and "0 \<le> rnd" and "rnd < 1"
  shows "min (1000 * 2 ^ n) 60000 \<le> real_of_int (Queue_calculateRetryDelay n rnd) \<and>
         real_of_int (Queue_calculateRetryDelay n rnd) \<le> min (1000 * 2 ^ n) 60000 * 1.1 \<and>
         (n \<le> 7 \<longrightarrow> 1000 * 2 ^ (n - 1) * 0.9 \<le> real_of_int (Queue_calculateRetryDelay n rnd)) \<and>
         min (1000 * 2 ^ (n - 1)) 30000 * 0.75 \<le> real_of_int (Webhook_calculateRetryDelay (int n) rnd) \<and>
         real_of_int (Webhook_calculateRetryDelay (int n) rnd) \<le> min (1000 * 2 ^ (n - 1)) 30000 * 1.25 \<and>
         (n \<le> 5 \<longrightarrow> real_of_int (Webhook_calculateRetryDelay (int n) rnd) \<le> min (1000 * 2 ^ n) 30000 * 1.1)"
proof -
  note q = Queue_calculateRetryDelay_bounds[OF assms(2,3), of n]
  note w = Webhook_calculateRetryDelay_bounds[OF assms]
  have qb: "Queue_base_delay n = min (1000 * 2 ^ n) 60000" by (simp add: Queue_base_delay_def)
  have "nat (int n - 1) = n - 1" by simp
  then have wb: "Webhook_base_delay (int n) = min (1000 * 2 ^ (n - 1)) 30000"
    using assms(1) by (simp add: Webhook_base_delay_def pow2_def)
  have c1: "min (1000 * 2 ^ n) 60000 \<le> real_of_int (Queue_calculateRetryDelay n rnd)"
    using q(1) qb by simp
  have c2: "real_of_int (Queue_calculateRetryDelay n rnd) \<le> min (1000 * 2 ^ n) 60000 * 1.1"
    using q(2) qb by simp
  have c3: "n \<le> 7 \<longrightarrow> 1000 * 2 ^ (n - 1) * 0.9 \<le> real_of_int (Queue_calculateRetryDelay n rnd)"
    using Queue_stated_lower[OF assms(1)] q(1) by fastforce
  have c4: "min (1000 * 2 ^ (n - 1)) 30000 * 0.75 \<le> real_of_int (Webhook_calculateRetryDelay (int n) rnd)"
    using w(1) wb by simp
  have c5: "real_of_int (Webhook_calculateRetryDelay (int n) rnd) \<le> min (1000 * 2 ^ (n - 1)) 30000 * 1.25"
    using w(2) wb by simp
  have c6: "n \<le> 5 \<longrightarrow> real_of_int (Webhook_calculateRetryDelay (int n) rnd) \<le> min (1000 * 2 ^ n) 30000 * 1.1"
    using Webhook_stated_upper[OF assms(1)] w(2) by fastforce
  show ?thesis using c1 c2 c3 c4 c5 c6 by blast
qed

theorem backoff_bounds_witness:
  "(1::nat) \<le> 2 \<and> (0::real) \<le> 1/2 \<and> (1/2::real) < 1 \<and>
   Queue_calculateRetryDelay 2 (1/2) = 4200 \<and> Webhook_calculateRetryDelay 2 (1/2) = 2000 \<and>
   min (1000 * 2 ^ 2) 60000 \<le> real_of_int (Queue_calculateRetryDelay 2 (1/2))"
  using backoff_bounds [of 2 "1/2"]
  by (simp add: Queue_calculateRetryDelay_def Queue_base_delay_def Webhook_calculateRetryDelay_def
      Webhook_base_delay_def pow2_def)

text \<open>
  Claim C5 as stated fails three times: the queue's eighth delay is capped at 60000,
  below \<open>1000 * 2^7 * 0.9\<close>; the webhook's first delay with jitter \<open>-25%\<close> is 750, below
  900; the webhook's sixth delay with jitter value 0.9 is 36000, above
  \<open>min(1000 * 2^6, 30000) * 1.1\<close>.
\<close>

theorem backoff_bounds_counterexample:
  "\<not> (1000 * 2 ^ (8 - 1) * 0.9 \<le> real_of_int (Queue_calculateRetryDelay 8 0)) \<and>
   \<not> (1000 * 2 ^ (1 - 1) * 0.9 \<le> real_of_int (Webhook_calculateRetryDelay 1 0)) \<and>
   \<not> (real_of_int (Webhook_calculateRetryDelay 6 0.9) \<le> min (1000 * 2 ^ 6) 30000 * 1.1)"
  by (simp add: Queue_calculateRetryDelay_def Queue_base_delay_def Webhook_calculateRetryDelay_def
      Webhook_base_delay_def pow2_def round_def)

section \<open>The queue driven by its callers\<close>

text \<open>
  The operations of a queue as its callers invoke them. \<open>QueueManager.addJob\<close> constructs
  a new job (a fresh UUID) and adds it; a consumer loop of a worker calls \<open>getNextJob\<close>,
  holds the job it returns while the processor runs, and hands that job to
  \<open>completeJob\<close> or \<open>failJob\<close>; the sweeper calls \<open>processDelayedJobs\<close>; \<open>removeJob\<close>
  takes any id. The arguments are the values the operation reads from its caller, the
  clock and \<open>Math.random()\<close>. \<open>run_sequential\<close> runs a list of such operations one at a
  time, each to its end before the next starts.
\<close>

datatype queue_op =
    OpAdd string timestamp string job_data "JobOptions option" "WebhookConfig option"
  | OpNext timestamp timestamp
  | OpComplete Job timestamp "json option"
  | OpFail Job timestamp timestamp real string
  | OpPromote timestamp
  | OpRemove string

fun op_store :: "QueueOptions \<Rightarrow> queue_op \<Rightarrow> redis \<Rightarrow> redis" where
  "op_store opts (OpAdd uuid now qn d jopts wh) q = addJob (new_Job uuid now qn d jopts wh) q"
| "op_store opts (OpNext now tp) q = snd (getNextJob now tp q)"
| "op_store opts (OpComplete job now res) q = snd (completeJob opts now job res q)"
| "op_store opts (OpFail job tf now rnd err) q = snd (failJob opts tf now rnd job err q)"
| "op_store opts (OpPromote now) q = processDelayedJobs now q"
| "op_store opts (OpRemove jobId) q = snd (removeJob jobId q)"


fun op_held :: "queue_op \<Rightarrow> redis \<Rightarrow> Job list \<Rightarrow> Job list" where
  "op_held (OpNext now tp) q h = (case fst (getNextJob now tp q) of None \<Rightarrow> h | Some job \<Rightarrow> job # h)"
| "op_held (OpComplete job now res) q h = remove1 job h"
| "op_held (OpFail job tf now rnd err) q h = remove1 job h"
| "op_held _ q h = h"

definition apply_op :: "QueueOptions \<Rightarrow> queue_op \<Rightarrow> world \<Rightarrow> world" where
  "apply_op opts x w = w\<lparr>store := op_store opts x (store w), held := op_held x (store w) (held w)\<rparr>"

text \<open>
  The members of the sorted set, and what the callers guarantee: a new job's UUID is in
  no structure and held by no consumer, and a consumer completes or fails a job it
  holds. The store's commands do not fail.
\<close>

definition dkeys :: "redis \<Rightarrow> string set" where
  "dkeys q = fst ` set (delayed q)"

definition fresh_id :: "string \<Rightarrow> world \<Rightarrow> bool" where
  "fresh_id uuid w =
     (uuid \<notin> set (waiting (store w)) \<and> uuid \<notin> set (active (store w)) \<and>
      uuid \<notin> dkeys (store w) \<and> uuid \<notin> job_id ` set (held w))"

fun enabled :: "queue_op \<Rightarrow> world \<Rightarrow> bool" where
  "enabled (OpAdd uuid now qn d jopts wh) w = fresh_id uuid w"
| "enabled (OpComplete job now res) w = (job \<in> set (held w))"
| "enabled (OpFail job tf now rnd err) w = (job \<in> set (held w))"
| "enabled _ w = True"

fun run_sequential :: "QueueOptions \<Rightarrow> queue_op list \<Rightarrow> world \<Rightarrow> world option" where
  "run_sequential opts [] w = Some w"
| "run_sequential opts (x # xs) w = (if enabled x w then run_sequential opts xs (apply_op opts x w) else None)"

definition init_world :: world where
  "init_world = \<lparr>store = empty_redis, held = [], sent = [], slept = []\<rparr>"











subsection \<open>Effects of the operations on the store\<close>

lemma dkeys_zadd: "fst ` set (zadd k s d) = insert k (fst ` set d)"
  by (simp add: zadd_def AList.dom_update)

lemma distinct_zadd: "distinct (map fst d) \<Longrightarrow> distinct (map fst (zadd k s d))"
  by (simp add: zadd_def AList.distinct_update)

lemma dkeys_zrem: "fst ` set (snd (zrem k d)) = fst ` set d - {k}"
  by (simp add: zrem_def delete_keys flip: set_map)

lemma distinct_zrem: "distinct (map fst d) \<Longrightarrow> distinct (map fst (snd (zrem k d)))"
  by (simp add: zrem_def distinct_delete)


lemma addJob_effect:
  "active (addJob job q) = active q"
  "waiting (addJob job q) = (if status job = DELAYED then waiting q else job_id job # waiting q)"
  "dkeys (addJob job q) = (if status job = DELAYED then insert (job_id job) (dkeys q) else dkeys q)"
  "distinct (map fst (delayed q)) \<Longrightarrow> distinct (map fst (delayed (addJob job q)))"
  "jobs (addJob job q) = (jobs q)(job_id job \<mapsto> job)"
  by (simp_all add: addJob_def Let_def updateStats_def lpush_def dkeys_def dkeys_zadd distinct_zadd)

lemma promote_one_effect:
  "waiting (promote_one k q) = (if k \<in> dom (jobs q) then k # waiting q else waiting q)"
  "dkeys (promote_one k q) = dkeys q - {k}"
  "distinct (map fst (delayed q)) \<Longrightarrow> distinct (map fst (delayed (promote_one k q)))"
  "jobs (promote_one k q) k' =
     (if k' = k then map_option (\<lambda>j. j\<lparr>status := WAITING\<rparr>) (jobs q k) else jobs q k')"
  by (auto simp: promote_one_def Let_def lpush_def dkeys_def dkeys_zrem distinct_zrem
      split: option.splits)








lemma getNextJob_cases:
  obtains (empty) "waiting (processDelayedJobs now q) = []"
      "getNextJob now tp q = (None, processDelayedJobs now q)"
  | (missing) rest k where "waiting (processDelayedJobs now q) = rest @ [k]"
      "jobs (processDelayedJobs now q) k = None"
      "getNextJob now tp q = (None, (processDelayedJobs now q)\<lparr>waiting := rest\<rparr>)"
  | (claimed) rest k stored where "waiting (processDelayedJobs now q) = rest @ [k]"
      "jobs (processDelayedJobs now q) k = Some stored"
      "getNextJob now tp q =
         (Some (markAsActive tp stored),
          (processDelayedJobs now q)\<lparr>waiting := rest,
             active := job_id stored # active (processDelayedJobs now q),
             jobs := (jobs (processDelayedJobs now q))(job_id stored \<mapsto> markAsActive tp stored)\<rparr>)"
proof (cases "waiting (processDelayedJobs now q)" rule: rev_cases)
  case Nil
  then show ?thesis using empty by (simp add: getNextJob_def brpop_def Let_def)
next
  case (snoc rest k)
  show ?thesis
  proof (cases "jobs (processDelayedJobs now q) k")
    case None
    then show ?thesis using snoc missing by (simp add: getNextJob_def brpop_def Let_def)
  next
    case (Some stored)
    then show ?thesis using snoc claimed[of rest k stored]
      by (simp add: getNextJob_def brpop_def Let_def lpush_def markAsActive_def)
  qed
qed



lemma completeJob_effect:
  "waiting (snd (completeJob opts now job res q)) = waiting q"
  "delayed (snd (completeJob opts now job res q)) = delayed q"
  "active (snd (completeJob opts now job res q)) = remove1 (job_id job) (active q)"
  "jobs (snd (completeJob opts now job res q)) =
     (if truthy (removeOnComplete opts) then (jobs q)(job_id job := None)
      else (jobs q)(job_id job \<mapsto> markAsCompleted now res job))"
  by (simp_all add: completeJob_def Let_def updateStats_def lrem_first_def markAsCompleted_def)

lemma failJob_effect:
  "waiting (snd (failJob opts tf now rnd job err q)) = waiting q"
  "active (snd (failJob opts tf now rnd job err q)) = remove1 (job_id job) (active q)"
  "dkeys (snd (failJob opts tf now rnd job err q)) =
     (if canRetry (markAsFailed tf err job) then insert (job_id job) (dkeys q) else dkeys q)"
  "distinct (map fst (delayed q)) \<Longrightarrow> distinct (map fst (delayed (snd (failJob opts tf now rnd job err q))))"
  "jobs (snd (failJob opts tf now rnd job err q)) =
     (if truthy (removeOnFail opts) then (jobs q)(job_id job := None)
      else (jobs q)(job_id job \<mapsto> fst (failJob opts tf now rnd job err q)))"
  "fst (failJob opts tf now rnd job err q) =
     (if canRetry (markAsFailed tf err job) then (markAsFailed tf err job)\<lparr>status := DELAYED\<rparr>
      else markAsFailed tf err job)"
  by (simp_all add: failJob_def Let_def updateStats_def lrem_first_def dkeys_def dkeys_zadd
      distinct_zadd canRetry_def markAsFailed_def)

lemma removeJob_effect:
  "waiting (snd (removeJob i q)) = removeAll i (waiting q)"
  "active (snd (removeJob i q)) = removeAll i (active q)"
  "dkeys (snd (removeJob i q)) = dkeys q - {i}"
  "distinct (map fst (delayed q)) \<Longrightarrow> distinct (map fst (delayed (snd (removeJob i q))))"
  "jobs (snd (removeJob i q)) = (jobs q)(i := None)"
  using dkeys_zrem[of i "delayed q"] distinct_zrem[of "delayed q" i]
  by (simp_all add: removeJob_def Let_def lrem_all_def dkeys_def case_prod_beta)




subsection \<open>The structural invariant\<close>













subsection \<open>The bound on attempts\<close>












subsection \<open>The retry endpoints\<close>

text \<open>
  \<open>retryJob\<close> of src/controllers/job-controller.ts and \<open>retryTask\<close> of
  src/controllers/task-controller.ts are the other callers of \<open>addJob\<close>: they add the
  stored job again when \<open>canRetry\<close> holds of it. No record that the queue writes
  satisfies \<open>canRetry\<close> (a failure with attempts left is stored as delayed, not failed),
  so on a store written by the queue's operations these endpoints change nothing.
\<close>

definition retry_endpoint :: "string \<Rightarrow> redis \<Rightarrow> redis" where
  "retry_endpoint jobId q =
     (case getJob jobId q of
        None \<Rightarrow> q
      | Some job \<Rightarrow> if \<not> canRetry job then q else addJob (resetForRetry job) q)"

definition none_retryable :: "redis \<Rightarrow> bool" where
  "none_retryable q = (\<forall>k j. jobs q k = Some j \<longrightarrow> \<not> canRetry j)"

lemma none_retryable_promote_all:
  "none_retryable q \<Longrightarrow> none_retryable (promote_all ks q)"
proof (induction ks arbitrary: q)
  case Nil
  then show ?case by simp
next
  case (Cons k ks)
  have "none_retryable (promote_one k q)"
    using Cons.prems
    by (auto simp: none_retryable_def promote_one_effect(4) canRetry_def split: if_splits)
  then show ?case using Cons.IH by simp
qed

lemma none_retryable_next:
  assumes "none_retryable q"
  shows "none_retryable (snd (getNextJob now tp q))"
proof -
  have p: "none_retryable (processDelayedJobs now q)"
    using assms by (simp add: processDelayedJobs_def none_retryable_promote_all)
  show ?thesis
  proof (rule getNextJob_cases[where now = now and q = q and tp = tp], goal_cases)
    case 1
    then show ?case using p by simp
  next
    case (2 rest k)
    then show ?case using p by (simp add: none_retryable_def)
  next
    case (3 rest k stored)
    then show ?case using p by (simp add: none_retryable_def canRetry_def markAsActive_def)
  qed
qed

lemma none_retryable_op_store:
  assumes "none_retryable q"
  shows "none_retryable (op_store opts x q)"
proof (cases x)
  case (OpAdd uuid now qn d jopts wh)
  have "\<not> canRetry (new_Job uuid now qn d jopts wh)"
    by (simp add: canRetry_def new_Job_def split: option.splits)
  then show ?thesis using assms OpAdd by (simp add: none_retryable_def addJob_effect)
next
  case (OpNext now tp)
  then show ?thesis using none_retryable_next[OF assms] by simp
next
  case (OpComplete job now res)
  then show ?thesis using assms
    by (simp add: none_retryable_def completeJob_effect canRetry_def markAsCompleted_def)
next
  case (OpFail job tf now rnd err)
  have "\<not> canRetry (fst (failJob opts tf now rnd job err q))"
    by (simp add: failJob_effect(6) canRetry_def)
  then show ?thesis using assms OpFail by (simp add: none_retryable_def failJob_effect(5))
next
  case (OpPromote now)
  then show ?thesis using assms by (simp add: processDelayedJobs_def none_retryable_promote_all)
next
  case (OpRemove jobId)
  then show ?thesis using assms by (simp add: none_retryable_def removeJob_effect)
qed

lemma none_retryable_run:
  assumes "none_retryable (store w0)" and "run_sequential opts ops w0 = Some w"
  shows "none_retryable (store w)"
  using assms
proof (induction ops arbitrary: w0)
  case Nil
  then show ?case by simp
next
  case (Cons x xs)
  from Cons.prems(2) have r: "run_sequential opts xs (apply_op opts x w0) = Some w"
    by (auto split: if_splits)
  have "none_retryable (store (apply_op opts x w0))"
    using none_retryable_op_store[OF Cons.prems(1)] by (simp add: apply_op_def)
  then show ?case using Cons.IH r by blast
qed

lemma retry_endpoint_changes_nothing:
  assumes "run_sequential opts ops init_world = Some w"
  shows "retry_endpoint jobId (store w) = store w"
proof -
  have "none_retryable (store init_world)"
    by (simp add: none_retryable_def init_world_def empty_redis_def)
  then have "none_retryable (store w)" using assms by (rule none_retryable_run)
  then show ?thesis
    by (auto simp: retry_endpoint_def getJob_def none_retryable_def split: option.splits)
qed

section \<open>Operations that overlap\<close>


text \<open>
  The body of the loop of \<open>processDelayedJobs\<close> is four commands: \<open>ZREM\<close> and \<open>HGET\<close>, then,
  when there is a record, \<open>HSET\<close> and \<open>LPUSH\<close>. Another operation can run between the
  two halves.
\<close>

definition promote_one_fetch :: "string \<Rightarrow> redis \<Rightarrow> Job option \<times> redis" where
  "promote_one_fetch jobId q =
     (let q1 = q\<lparr>delayed := snd (zrem jobId (delayed q))\<rparr> in (jobs q1 jobId, q1))"

definition promote_one_store :: "string \<Rightarrow> Job \<Rightarrow> redis \<Rightarrow> redis" where
  "promote_one_store jobId job q =
     q\<lparr>jobs := (jobs q)(jobId \<mapsto> job\<lparr>status := WAITING\<rparr>), waiting := lpush jobId (waiting q)\<rparr>"

lemma promote_one_commands:
  "promote_one jobId q =
     (case promote_one_fetch jobId q of
        (None, q1) \<Rightarrow> q1
      | (Some job, q1) \<Rightarrow> promote_one_store jobId job q1)"
  by (simp add: promote_one_def promote_one_fetch_def promote_one_store_def Let_def
      split: option.splits)


section \<open>Exclusion, the bound on attempts, removal\<close>















end
